theory Spec2Isabelle
  imports Main "HOL-Library.Word"
begin

section \<open>The timemory connector of kokkos-tools (kp_timemory.cpp)\<close>

text \<open>
  The connector keeps, per thread, a counter of handles, a map from handles to metric
  bundles, a second map for sections and a stack of bundles. Every callback of the Kokkos
  runtime is a function on that state. The state below is the state of one thread; the
  memory cells behind the callbacks' out-pointers are part of it.
  \<^verbatim>\<open>kokkosp_init_library\<close> prints a banner, reads the environment and configures
  timemory; it touches none of the thread's containers and is left out.
\<close>

type_synonym u32 = "32 word"
type_synonym u64 = "64 word"
type_synonym addr = "64 word"

subsection \<open>Names: what the stream operators and TIMEMORY\_JOIN write\<close>

text \<open>
  The arguments of \<^verbatim>\<open>TIMEMORY_JOIN\<close> go through a \<^verbatim>\<open>std::stringstream\<close>:
  an unsigned integer is written in decimal, a pointer that is not a \<^verbatim>\<open>char*\<close> as its
  address (the format is the implementation's; the one of libstdc++ is hexadecimal with the
  prefix 0x, and 0 for the null pointer), a \<^verbatim>\<open>const char*\<close> as its characters.
\<close>

definition digit_char :: "nat \<Rightarrow> char" where
  "digit_char d = ''0123456789abcdef'' ! d"

fun show_dec :: "nat \<Rightarrow> string" where
  "show_dec n = (if n < 10 then [digit_char n] else show_dec (n div 10) @ [digit_char (n mod 10)])"

fun show_hex :: "nat \<Rightarrow> string" where
  "show_hex n = (if n < 16 then [digit_char n] else show_hex (n div 16) @ [digit_char (n mod 16)])"

declare show_dec.simps [simp del] show_hex.simps [simp del]

text \<open>\<^verbatim>\<open>ss << devid\<close> for a \<^verbatim>\<open>uint32_t\<close>.\<close>

definition show_u32 :: "u32 \<Rightarrow> string" where
  "show_u32 w = show_dec (unat w)"

text \<open>\<^verbatim>\<open>ss << secid\<close> for a \<^verbatim>\<open>uint32_t*\<close>: the address, not the value behind it.\<close>

definition show_ptr :: "addr \<Rightarrow> string" where
  "show_ptr p = (if p = 0 then ''0'' else ''0x'' @ show_hex (unat p))"

text \<open>The number that a string of decimal digits denotes, to read \<open>show_dec\<close> back.\<close>

definition digit_value :: "char \<Rightarrow> nat" where
  "digit_value c = of_char c - 48"

definition dec_value :: "string \<Rightarrow> nat" where
  "dec_value s = foldl (\<lambda>a c. 10 * a + digit_value c) 0 s"

text \<open>
  Modelled from the spec: the macro \<^verbatim>\<open>TIMEMORY_JOIN(delim, ...)\<close> comes from the timemory
  headers, which are not part of the sources. It writes its arguments to one stream, the
  delimiter between two neighbours ("kokkos/dev2/saxpy" from "/", "kokkos", "dev2", "saxpy").
  The arguments arrive here already rendered.
\<close>

fun timemory_join :: "string \<Rightarrow> string list \<Rightarrow> string" where
  "timemory_join delim [] = []"
| "timemory_join delim [a] = a"
| "timemory_join delim (a # b # rest) = a @ delim @ timemory_join delim (b # rest)"

subsection \<open>The metric bundle\<close>

text \<open>
  Modelled from the spec: \<^verbatim>\<open>profile_entry_t\<close> is a \<^verbatim>\<open>tim::component_tuple\<close>, a type
  of the timemory library, whose headers are not part of the sources. The spec takes it as
  an opaque bundle that is constructed with a name, started and stopped. The connector
  constructs it from a name and the flag \<^verbatim>\<open>true\<close>, and calls \<^verbatim>\<open>start()\<close> and
  \<^verbatim>\<open>stop()\<close> on it. The model keeps the name, the flag and the calls the bundle has
  received, oldest first; what the bundle measures is not modelled.
\<close>

datatype call = Start | Stop

record profile_entry_t =
  key :: string
  store :: bool
  calls :: "call list"

definition profile_entry :: "string \<Rightarrow> bool \<Rightarrow> profile_entry_t" where
  "profile_entry pname flag = \<lparr>key = pname, store = flag, calls = []\<rparr>"

definition start :: "profile_entry_t \<Rightarrow> profile_entry_t" where
  "start e = e\<lparr>calls := calls e @ [Start]\<rparr>"

definition stop :: "profile_entry_t \<Rightarrow> profile_entry_t" where
  "stop e = e\<lparr>calls := calls e @ [Stop]\<rparr>"

subsection \<open>Containers\<close>

text \<open>
  A \<^verbatim>\<open>std::unordered_map<uint64_t, V>\<close> is a list of pairs; the order of the list stands
  for the order of iteration, which C++ leaves open. \<^verbatim>\<open>find\<close> is the lookup,
  \<^verbatim>\<open>insert\<close> keeps the old value when the key is there, \<^verbatim>\<open>erase\<close> removes the key,
  \<^verbatim>\<open>at\<close> throws \<^verbatim>\<open>std::out_of_range\<close> for a key that is not there. \<^verbatim>\<open>back()\<close> of an
  empty \<^verbatim>\<open>std::vector\<close> is undefined behaviour, an error of the model.
\<close>

datatype error = Out_Of_Range | Back_Of_Empty

type_synonym 'v unordered_map = "(u64 \<times> 'v) list"

definition um_find :: "'v unordered_map \<Rightarrow> u64 \<Rightarrow> 'v option" where
  "um_find m k = map_of m k"

definition um_insert :: "u64 \<Rightarrow> 'v \<Rightarrow> 'v unordered_map \<Rightarrow> 'v unordered_map" where
  "um_insert k v m = (if um_find m k = None then m @ [(k, v)] else m)"

definition um_erase :: "u64 \<Rightarrow> 'v unordered_map \<Rightarrow> 'v unordered_map" where
  "um_erase k m = filter (\<lambda>kv. fst kv \<noteq> k) m"

definition um_at :: "'v unordered_map \<Rightarrow> u64 \<Rightarrow> error + 'v" where
  "um_at m k = (case um_find m k of None \<Rightarrow> Inl Out_Of_Range | Some v \<Rightarrow> Inr v)"

text \<open>Writing through the reference that \<^verbatim>\<open>at\<close> returned: the first pair of the key.\<close>

fun um_assign :: "u64 \<Rightarrow> 'v \<Rightarrow> 'v unordered_map \<Rightarrow> 'v unordered_map" where
  "um_assign k v [] = []"
| "um_assign k v (kv # m) = (if fst kv = k then (k, v) # m else kv # um_assign k v m)"

definition vec_back :: "'a list \<Rightarrow> error + 'a" where
  "vec_back xs = (case xs of [] \<Rightarrow> Inl Back_Of_Empty | _ # _ \<Rightarrow> Inr (last xs))"

definition vec_set_back :: "'a \<Rightarrow> 'a list \<Rightarrow> 'a list" where
  "vec_set_back x xs = butlast xs @ [x]"

subsection \<open>The state of a thread\<close>

text \<open>
  \<open>unique_id\<close> is the \<^verbatim>\<open>thread_local\<close> counter of \<^verbatim>\<open>get_unique_id\<close>; \<open>profile_map\<close>,
  \<open>section_map\<close> and \<open>profile_stack\<close> are the three \<^verbatim>\<open>get_tl_static\<close> instances.
  \<open>destroyed\<close> lists the bundles whose destructor has run, oldest first, each as it was
  then: a bundle leaves a container only through it. The temporaries that a bundle was
  moved out of are not listed. \<open>mem64\<close> and \<open>mem32\<close> are the caller's memory behind
  the \<^verbatim>\<open>uint64_t*\<close> and \<^verbatim>\<open>uint32_t*\<close> out-parameters.
\<close>

type_synonym section_entry_t = "string \<times> profile_entry_t"

record state =
  unique_id :: u64
  profile_map :: "profile_entry_t unordered_map"
  section_map :: "section_entry_t unordered_map"
  profile_stack :: "profile_entry_t list"
  destroyed :: "profile_entry_t list"
  mem64 :: "addr \<Rightarrow> u64"
  mem32 :: "addr \<Rightarrow> u32"

text \<open>A thread that has made no callback yet; its memory is zero here.\<close>

definition init_state :: state where
  "init_state = \<lparr>unique_id = 0, profile_map = [], section_map = [], profile_stack = [],
     destroyed = [], mem64 = (\<lambda>_. 0), mem32 = (\<lambda>_. 0)\<rparr>"

subsection \<open>Handle allocator and session registry\<close>

text \<open>\<^verbatim>\<open>return _instance++;\<close> on a \<^verbatim>\<open>uint64_t\<close>: the old value, and the counter wraps.\<close>

definition get_unique_id :: "state \<Rightarrow> u64 \<times> state" where
  "get_unique_id st = (unique_id st, st\<lparr>unique_id := unique_id st + 1\<rparr>)"

text \<open>
  \<^verbatim>\<open>get_profile_map().insert(std::make_pair(kernid, profile_entry_t(pname, true)))\<close>:
  when the key is taken the map stays as it is and the new bundle is destroyed at once.
\<close>

definition create_profiler :: "string \<Rightarrow> u64 \<Rightarrow> state \<Rightarrow> state" where
  "create_profiler pname kernid st =
     (if um_find (profile_map st) kernid = None
      then st\<lparr>profile_map := um_insert kernid (profile_entry pname True) (profile_map st)\<rparr>
      else st\<lparr>destroyed := destroyed st @ [profile_entry pname True]\<rparr>)"

definition destroy_profiler :: "u64 \<Rightarrow> state \<Rightarrow> state" where
  "destroy_profiler kernid st =
     (case um_find (profile_map st) kernid of
        Some e \<Rightarrow> st\<lparr>profile_map := um_erase kernid (profile_map st),
                     destroyed := destroyed st @ [e]\<rparr>
      | None \<Rightarrow> st)"

definition start_profiler :: "u64 \<Rightarrow> state \<Rightarrow> error + state" where
  "start_profiler kernid st =
     (if um_find (profile_map st) kernid \<noteq> None
      then (case um_at (profile_map st) kernid of
              Inl x \<Rightarrow> Inl x
            | Inr e \<Rightarrow> Inr (st\<lparr>profile_map := um_assign kernid (start e) (profile_map st)\<rparr>))
      else Inr st)"

definition stop_profiler :: "u64 \<Rightarrow> state \<Rightarrow> error + state" where
  "stop_profiler kernid st =
     (if um_find (profile_map st) kernid \<noteq> None
      then (case um_at (profile_map st) kernid of
              Inl x \<Rightarrow> Inl x
            | Inr e \<Rightarrow> Inr (st\<lparr>profile_map := um_assign kernid (stop e) (profile_map st)\<rparr>))
      else Inr st)"

subsection \<open>The callbacks\<close>

text \<open>
  The first argument \<open>sz\<close> of every callback is \<^verbatim>\<open>profile_entry_t::size()\<close>, a constant
  of the build (the number of components in \<^verbatim>\<open>KP_COMPONENTS\<close>, 1 without it).
\<close>

text \<open>
  \<^verbatim>\<open>for(auto& itr : get_profile_map()) itr.second.stop(); get_profile_map().clear();\<close>
  Clearing destroys every bundle of the map. What \<^verbatim>\<open>tim::timemory_finalize\<close> does is
  outside the connector.
\<close>

definition kokkosp_finalize_library :: "state \<Rightarrow> error + state" where
  "kokkosp_finalize_library st =
     (let stopped = map (\<lambda>kv. (fst kv, stop (snd kv))) (profile_map st)
      in Inr (st\<lparr>profile_map := [], destroyed := destroyed st @ map snd stopped\<rparr>))"

definition kokkosp_begin_parallel_for :: "nat \<Rightarrow> string \<Rightarrow> u32 \<Rightarrow> addr \<Rightarrow> state \<Rightarrow> error + state" where
  "kokkosp_begin_parallel_for sz name devid kernid st =
     (if sz > 0 then
        (let pname = timemory_join ''/'' [''kokkos'', timemory_join '''' [''dev'', show_u32 devid], name];
             (uid, st1) = get_unique_id st;
             st2 = st1\<lparr>mem64 := (mem64 st1)(kernid := uid)\<rparr>;
             st3 = create_profiler pname (mem64 st2 kernid) st2
         in start_profiler (mem64 st3 kernid) st3)
      else Inr st)"

definition kokkosp_end_parallel_for :: "nat \<Rightarrow> u64 \<Rightarrow> state \<Rightarrow> error + state" where
  "kokkosp_end_parallel_for sz kernid st =
     (if sz > 0 then
        (case stop_profiler kernid st of
           Inl x \<Rightarrow> Inl x
         | Inr st1 \<Rightarrow> Inr (destroy_profiler kernid st1))
      else Inr st)"

definition kokkosp_begin_parallel_reduce :: "nat \<Rightarrow> string \<Rightarrow> u32 \<Rightarrow> addr \<Rightarrow> state \<Rightarrow> error + state" where
  "kokkosp_begin_parallel_reduce sz name devid kernid st =
     (if sz > 0 then
        (let pname = timemory_join ''/'' [''kokkos'', timemory_join '''' [''dev'', show_u32 devid], name];
             (uid, st1) = get_unique_id st;
             st2 = st1\<lparr>mem64 := (mem64 st1)(kernid := uid)\<rparr>;
             st3 = create_profiler pname (mem64 st2 kernid) st2
         in start_profiler (mem64 st3 kernid) st3)
      else Inr st)"

definition kokkosp_end_parallel_reduce :: "nat \<Rightarrow> u64 \<Rightarrow> state \<Rightarrow> error + state" where
  "kokkosp_end_parallel_reduce sz kernid st =
     (if sz > 0 then
        (case stop_profiler kernid st of
           Inl x \<Rightarrow> Inl x
         | Inr st1 \<Rightarrow> Inr (destroy_profiler kernid st1))
      else Inr st)"

definition kokkosp_begin_parallel_scan :: "nat \<Rightarrow> string \<Rightarrow> u32 \<Rightarrow> addr \<Rightarrow> state \<Rightarrow> error + state" where
  "kokkosp_begin_parallel_scan sz name devid kernid st =
     (if sz > 0 then
        (let pname = timemory_join ''/'' [''kokkos'', timemory_join '''' [''dev'', show_u32 devid], name];
             (uid, st1) = get_unique_id st;
             st2 = st1\<lparr>mem64 := (mem64 st1)(kernid := uid)\<rparr>;
             st3 = create_profiler pname (mem64 st2 kernid) st2
         in start_profiler (mem64 st3 kernid) st3)
      else Inr st)"

definition kokkosp_end_parallel_scan :: "nat \<Rightarrow> u64 \<Rightarrow> state \<Rightarrow> error + state" where
  "kokkosp_end_parallel_scan sz kernid st =
     (if sz > 0 then
        (case stop_profiler kernid st of
           Inl x \<Rightarrow> Inl x
         | Inr st1 \<Rightarrow> Inr (destroy_profiler kernid st1))
      else Inr st)"

text \<open>
  \<^verbatim>\<open>get_profile_stack().push_back(profile_entry_t(name, true));
  get_profile_stack().back().start();\<close>
\<close>

definition kokkosp_push_profile_region :: "nat \<Rightarrow> string \<Rightarrow> state \<Rightarrow> error + state" where
  "kokkosp_push_profile_region sz name st =
     (if sz > 0 then
        (let st1 = st\<lparr>profile_stack := profile_stack st @ [profile_entry name True]\<rparr>
         in case vec_back (profile_stack st1) of
              Inl x \<Rightarrow> Inl x
            | Inr e \<Rightarrow> Inr (st1\<lparr>profile_stack := vec_set_back (start e) (profile_stack st1)\<rparr>))
      else Inr st)"

text \<open>
  \<^verbatim>\<open>if(get_profile_stack().empty()) return;
  get_profile_stack().back().stop(); get_profile_stack().pop_back();\<close>
\<close>

definition kokkosp_pop_profile_region :: "nat \<Rightarrow> state \<Rightarrow> error + state" where
  "kokkosp_pop_profile_region sz st =
     (if sz > 0 then
        (if profile_stack st = [] then Inr st
         else (case vec_back (profile_stack st) of
                 Inl x \<Rightarrow> Inl x
               | Inr e \<Rightarrow>
                   (let st1 = st\<lparr>profile_stack := vec_set_back (stop e) (profile_stack st)\<rparr>
                    in Inr (st1\<lparr>profile_stack := butlast (profile_stack st1),
                                 destroyed := destroyed st1 @ [last (profile_stack st1)]\<rparr>))))
      else Inr st)"

text \<open>
  \<^verbatim>\<open>*secid = get_unique_id();\<close> keeps the low 32 bits of the counter. The name is joined
  from \<^verbatim>\<open>secid\<close>, the pointer, and \<^verbatim>\<open>create_profiler(pname, *secid)\<close> widens the
  32-bit id to the key of the map.
\<close>

definition kokkosp_create_profile_section :: "nat \<Rightarrow> string \<Rightarrow> addr \<Rightarrow> state \<Rightarrow> error + state" where
  "kokkosp_create_profile_section sz name secid st =
     (if sz > 0 then
        (let (uid, st1) = get_unique_id st;
             st2 = st1\<lparr>mem32 := (mem32 st1)(secid := ucast uid)\<rparr>;
             pname = timemory_join ''/'' [''kokkos'', timemory_join '''' [''section'', show_ptr secid], name]
         in Inr (create_profiler pname (ucast (mem32 st2 secid)) st2))
      else Inr st)"

definition kokkosp_destroy_profile_section :: "nat \<Rightarrow> u32 \<Rightarrow> state \<Rightarrow> error + state" where
  "kokkosp_destroy_profile_section sz secid st =
     (if sz > 0 then Inr (destroy_profiler (ucast secid) st) else Inr st)"

definition kokkosp_start_profile_section :: "nat \<Rightarrow> u32 \<Rightarrow> state \<Rightarrow> error + state" where
  "kokkosp_start_profile_section sz secid st =
     (if sz > 0 then start_profiler (ucast secid) st else Inr st)"

text \<open>The body of the source calls \<^verbatim>\<open>start_profiler(secid)\<close>.\<close>

definition kokkosp_stop_profile_section :: "nat \<Rightarrow> u32 \<Rightarrow> state \<Rightarrow> error + state" where
  "kokkosp_stop_profile_section sz secid st =
     (if sz > 0 then start_profiler (ucast secid) st else Inr st)"

subsection \<open>Sequences of callbacks\<close>

datatype event =
    Begin_For string u32 addr | End_For u64
  | Begin_Reduce string u32 addr | End_Reduce u64
  | Begin_Scan string u32 addr | End_Scan u64
  | Push_Region string | Pop_Region
  | Create_Section string addr | Destroy_Section u32
  | Start_Section u32 | Stop_Section u32

fun exec :: "nat \<Rightarrow> event \<Rightarrow> state \<Rightarrow> error + state" where
  "exec sz (Begin_For name devid kernid) st = kokkosp_begin_parallel_for sz name devid kernid st"
| "exec sz (End_For kernid) st = kokkosp_end_parallel_for sz kernid st"
| "exec sz (Begin_Reduce name devid kernid) st = kokkosp_begin_parallel_reduce sz name devid kernid st"
| "exec sz (End_Reduce kernid) st = kokkosp_end_parallel_reduce sz kernid st"
| "exec sz (Begin_Scan name devid kernid) st = kokkosp_begin_parallel_scan sz name devid kernid st"
| "exec sz (End_Scan kernid) st = kokkosp_end_parallel_scan sz kernid st"
| "exec sz (Push_Region name) st = kokkosp_push_profile_region sz name st"
| "exec sz Pop_Region st = kokkosp_pop_profile_region sz st"
| "exec sz (Create_Section name secid) st = kokkosp_create_profile_section sz name secid st"
| "exec sz (Destroy_Section secid) st = kokkosp_destroy_profile_section sz secid st"
| "exec sz (Start_Section secid) st = kokkosp_start_profile_section sz secid st"
| "exec sz (Stop_Section secid) st = kokkosp_stop_profile_section sz secid st"

text \<open>The callbacks one after the other; an error ends the run, as an exception would.\<close>

fun run :: "nat \<Rightarrow> event list \<Rightarrow> state \<Rightarrow> error + state" where
  "run sz [] st = Inr st"
| "run sz (ev # evs) st = (case exec sz ev st of Inl x \<Rightarrow> Inl x | Inr st1 \<Rightarrow> run sz evs st1)"


subsection \<open>Counting the region callbacks of a sequence\<close>

fun pushes :: "event list \<Rightarrow> nat" where
  "pushes [] = 0"
| "pushes (Push_Region name # evs) = Suc (pushes evs)"
| "pushes (ev # evs) = pushes evs"

fun pops :: "event list \<Rightarrow> nat" where
  "pops [] = 0"
| "pops (Pop_Region # evs) = Suc (pops evs)"
| "pops (ev # evs) = pops evs"

text \<open>
  \<open>no_underflow d evs\<close>: started at depth \<open>d\<close>, no \<open>Pop_Region\<close> of the sequence
  comes when as many regions have been popped as were there or pushed before it.
\<close>

fun no_underflow :: "nat \<Rightarrow> event list \<Rightarrow> bool" where
  "no_underflow d [] = True"
| "no_underflow d (Push_Region name # evs) = no_underflow (Suc d) evs"
| "no_underflow d (Pop_Region # evs) = (0 < d \<and> no_underflow (d - 1) evs)"
| "no_underflow d (ev # evs) = no_underflow d evs"

subsection \<open>Handles below the counter\<close>

text \<open>
  Every key of the profile map is below the counter of the allocator. It holds on a fresh
  thread and as long as the counter has not wrapped, and it makes the next handle a key
  that the map does not have.
\<close>

definition handles_below :: "state \<Rightarrow> bool" where
  "handles_below st = list_all (\<lambda>kv. fst kv < unique_id st) (profile_map st)"

section \<open>Lemmas on the containers and the registry\<close>

lemma um_find_erase_same: "um_find (um_erase k m) k = None"
  by (induction m) (auto simp: um_find_def um_erase_def)

lemma um_find_erase_other: "k' \<noteq> k \<Longrightarrow> um_find (um_erase k m) k' = um_find m k'"
  by (induction m) (auto simp: um_find_def um_erase_def)

lemma um_erase_absent: "um_find m k = None \<Longrightarrow> um_erase k m = m"
  by (induction m) (auto simp: um_find_def um_erase_def split: if_splits)

lemma um_find_assign_same: "um_find m k = Some e \<Longrightarrow> um_find (um_assign k v m) k = Some v"
  by (induction m) (auto simp: um_find_def split: if_splits)

lemma um_find_assign_other: "k' \<noteq> k \<Longrightarrow> um_find (um_assign k v m) k' = um_find m k'"
  by (induction m) (auto simp: um_find_def)

lemma um_erase_assign: "um_erase k (um_assign k v m) = um_erase k m"
  by (induction m) (auto simp: um_erase_def)

lemma um_find_insert_new: "um_find m k = None \<Longrightarrow> um_find (um_insert k v m) k = Some v"
  by (simp add: um_insert_def um_find_def map_add_def)

lemma um_find_insert_other: "k' \<noteq> k \<Longrightarrow> um_find (um_insert k v m) k' = um_find m k'"
  by (simp add: um_insert_def um_find_def map_add_def split: option.split)

lemma start_profiler_eq:
  "start_profiler k st =
     Inr (case um_find (profile_map st) k of
            None \<Rightarrow> st
          | Some e \<Rightarrow> st\<lparr>profile_map := um_assign k (start e) (profile_map st)\<rparr>)"
  by (simp add: start_profiler_def um_at_def split: option.split)

lemma stop_profiler_eq:
  "stop_profiler k st =
     Inr (case um_find (profile_map st) k of
            None \<Rightarrow> st
          | Some e \<Rightarrow> st\<lparr>profile_map := um_assign k (stop e) (profile_map st)\<rparr>)"
  by (simp add: stop_profiler_def um_at_def split: option.split)

lemma show_dec_digit: "n < 10 \<Longrightarrow> show_dec n = [digit_char n]"
  by (simp add: show_dec.simps)

lemmas callback_defs =
  kokkosp_begin_parallel_for_def kokkosp_end_parallel_for_def
  kokkosp_begin_parallel_reduce_def kokkosp_end_parallel_reduce_def
  kokkosp_begin_parallel_scan_def kokkosp_end_parallel_scan_def
  kokkosp_push_profile_region_def kokkosp_pop_profile_region_def
  kokkosp_create_profile_section_def kokkosp_destroy_profile_section_def
  kokkosp_start_profile_section_def kokkosp_stop_profile_section_def

lemmas registry_defs =
  start_profiler_eq stop_profiler_eq create_profiler_def destroy_profiler_def
  get_unique_id_def vec_back_def vec_set_back_def

lemma exec_total: "\<exists>st'. exec sz ev st = Inr st'"
  by (cases ev) (auto simp: callback_defs registry_defs Let_def split: option.split list.split)

lemma run_total: "\<exists>st'. run sz evs st = Inr st'"
proof (induction evs arbitrary: st)
  case Nil
  show ?case by simp
next
  case (Cons ev evs)
  obtain st1 where "exec sz ev st = Inr st1" using exec_total by blast
  with Cons.IH [of st1] show ?case by simp
qed

lemma exec_section_map: "exec sz ev st = Inr st' \<Longrightarrow> section_map st' = section_map st"
  by (cases ev) (auto simp: callback_defs registry_defs Let_def split: option.splits list.splits if_splits)

lemma run_section_map: "run sz evs st = Inr st' \<Longrightarrow> section_map st' = section_map st"
proof (induction evs arbitrary: st)
  case Nil
  then show ?case by simp
next
  case (Cons ev evs)
  obtain st1 where st1: "exec sz ev st = Inr st1" using exec_total by blast
  with Cons.prems have "run sz evs st1 = Inr st'" by simp
  with Cons.IH have "section_map st' = section_map st1" by blast
  with exec_section_map [OF st1] show ?case by simp
qed

lemma exec_zero: "exec 0 ev st = Inr st"
  by (cases ev) (simp_all add: callback_defs)

lemma run_zero: "run 0 evs st = Inr st"
  by (induction evs) (simp_all add: exec_zero)

lemma begin_reduce_is_for: "kokkosp_begin_parallel_reduce = kokkosp_begin_parallel_for"
  by (intro ext) (simp add: kokkosp_begin_parallel_reduce_def kokkosp_begin_parallel_for_def)

lemma begin_scan_is_for: "kokkosp_begin_parallel_scan = kokkosp_begin_parallel_for"
  by (intro ext) (simp add: kokkosp_begin_parallel_scan_def kokkosp_begin_parallel_for_def)

lemma end_reduce_is_for: "kokkosp_end_parallel_reduce = kokkosp_end_parallel_for"
  by (intro ext) (simp add: kokkosp_end_parallel_reduce_def kokkosp_end_parallel_for_def)

lemma end_scan_is_for: "kokkosp_end_parallel_scan = kokkosp_end_parallel_for"
  by (intro ext) (simp add: kokkosp_end_parallel_scan_def kokkosp_end_parallel_for_def)

lemma end_for_registered:
  assumes "0 < sz" and "um_find (profile_map st) h = Some e"
  shows "kokkosp_end_parallel_for sz h st =
     Inr (st\<lparr>profile_map := um_erase h (profile_map st), destroyed := destroyed st @ [stop e]\<rparr>)"
  using assms
  by (simp add: kokkosp_end_parallel_for_def stop_profiler_eq destroy_profiler_def
      um_find_assign_same um_erase_assign)

lemma end_for_absent:
  assumes "um_find (profile_map st) h = None"
  shows "kokkosp_end_parallel_for sz h st = Inr st"
  using assms by (simp add: kokkosp_end_parallel_for_def stop_profiler_eq destroy_profiler_def)

lemma um_assign_appended:
  "um_find m k = None \<Longrightarrow> um_assign k v (m @ [(k, w)]) = m @ [(k, v)]"
  by (induction m) (auto simp: um_find_def split: if_splits)

lemma um_find_appended:
  "um_find m k = None \<Longrightarrow> um_find (m @ [(k, v)]) k = Some v"
  by (simp add: um_find_def map_add_def)

lemma begin_for_fresh:
  assumes "0 < sz" and "um_find (profile_map st) (unique_id st) = None"
  shows "kokkosp_begin_parallel_for sz name devid kernid st =
     Inr (st\<lparr>unique_id := unique_id st + 1,
            mem64 := (mem64 st)(kernid := unique_id st),
            profile_map := profile_map st @
              [(unique_id st, \<lparr>key = ''kokkos/dev'' @ show_dec (unat devid) @ ''/'' @ name,
                               store = True, calls = [Start]\<rparr>)]\<rparr>)"
  using assms
  by (simp add: kokkosp_begin_parallel_for_def Let_def get_unique_id_def create_profiler_def
      start_profiler_eq um_insert_def um_find_appended um_assign_appended profile_entry_def
      start_def show_u32_def)

lemma begin_for_taken:
  assumes "0 < sz" and "um_find (profile_map st) (unique_id st) = Some e"
  shows "kokkosp_begin_parallel_for sz name devid kernid st =
     Inr (st\<lparr>unique_id := unique_id st + 1,
            mem64 := (mem64 st)(kernid := unique_id st),
            destroyed := destroyed st @
              [\<lparr>key = ''kokkos/dev'' @ show_dec (unat devid) @ ''/'' @ name, store = True, calls = []\<rparr>],
            profile_map := um_assign (unique_id st) (start e) (profile_map st)\<rparr>)"
  using assms
  by (simp add: kokkosp_begin_parallel_for_def Let_def get_unique_id_def create_profiler_def
      start_profiler_eq profile_entry_def show_u32_def)

lemma begin_for_registers:
  assumes "0 < sz"
  shows "\<exists>st1 e. kokkosp_begin_parallel_for sz name devid kernid st = Inr st1
     \<and> mem64 st1 kernid = unique_id st
     \<and> um_find (profile_map st1) (mem64 st1 kernid) = Some e"
proof (cases "um_find (profile_map st) (unique_id st)")
  case None
  show ?thesis
    by (simp add: begin_for_fresh [OF assms None] um_find_appended [OF None])
next
  case (Some e)
  show ?thesis
    by (simp add: begin_for_taken [OF assms Some] um_find_assign_same [OF Some])
qed

lemma vec_back_snoc: "vec_back (xs @ [x]) = Inr x"
  by (cases xs) (simp_all add: vec_back_def)

lemma vec_set_back_snoc: "vec_set_back y (xs @ [x]) = xs @ [y]"
  by (simp add: vec_set_back_def)

lemma push_region_eq:
  "0 < sz \<Longrightarrow> kokkosp_push_profile_region sz name st =
     Inr (st\<lparr>profile_stack := profile_stack st @ [\<lparr>key = name, store = True, calls = [Start]\<rparr>]\<rparr>)"
  by (simp add: kokkosp_push_profile_region_def Let_def vec_back_snoc vec_set_back_snoc
      profile_entry_def start_def)

lemma pop_region_empty:
  "profile_stack st = [] \<Longrightarrow> kokkosp_pop_profile_region sz st = Inr st"
  by (simp add: kokkosp_pop_profile_region_def)

lemma pop_region_top:
  "0 < sz \<Longrightarrow> profile_stack st = xs @ [e] \<Longrightarrow>
   kokkosp_pop_profile_region sz st =
     Inr (st\<lparr>profile_stack := xs, destroyed := destroyed st @ [stop e]\<rparr>)"
  by (simp add: kokkosp_pop_profile_region_def Let_def vec_back_snoc vec_set_back_snoc)

lemma exec_stack_other:
  assumes "exec sz ev st = Inr st'" and "ev \<noteq> Pop_Region" and "\<And>name. ev \<noteq> Push_Region name"
  shows "profile_stack st' = profile_stack st"
  using assms
  by (cases ev) (auto simp: callback_defs registry_defs Let_def split: option.splits if_splits)

lemma pops_le_pushes: "no_underflow d evs \<Longrightarrow> pops evs \<le> d + pushes evs"
  by (induction d evs rule: no_underflow.induct) auto

lemma run_stack_depth:
  assumes "0 < sz" and "no_underflow (length (profile_stack st)) evs"
  shows "\<exists>st'. run sz evs st = Inr st'
     \<and> length (profile_stack st') + pops evs = length (profile_stack st) + pushes evs"
  using assms(2)
proof (induction evs arbitrary: st)
  case Nil
  show ?case by simp
next
  case (Cons ev evs)
  show ?case
  proof (cases "ev = Pop_Region")
    case True
    with Cons.prems have d: "0 < length (profile_stack st)"
      and rest: "no_underflow (length (profile_stack st) - 1) evs" by simp_all
    from d obtain xs e where top: "profile_stack st = xs @ [e]"
      by (cases "profile_stack st" rule: rev_cases) auto
    let ?st1 = "st\<lparr>profile_stack := xs, destroyed := destroyed st @ [stop e]\<rparr>"
    from rest top have "no_underflow (length (profile_stack ?st1)) evs" by simp
    from Cons.IH [OF this] obtain st' where "run sz evs ?st1 = Inr st'"
      and "length (profile_stack st') + pops evs = length (profile_stack ?st1) + pushes evs"
      by blast
    with True top show ?thesis
      by (simp add: pop_region_top [OF assms(1) top])
  next
    case notpop: False
    show ?thesis
    proof (cases "\<exists>name. ev = Push_Region name")
      case True
      then obtain name where ev: "ev = Push_Region name" by blast
      let ?st1 = "st\<lparr>profile_stack := profile_stack st @ [\<lparr>key = name, store = True, calls = [Start]\<rparr>]\<rparr>"
      from Cons.prems ev have "no_underflow (length (profile_stack ?st1)) evs" by simp
      from Cons.IH [OF this] obtain st' where "run sz evs ?st1 = Inr st'"
        and "length (profile_stack st') + pops evs = length (profile_stack ?st1) + pushes evs"
        by blast
      with ev show ?thesis
        by (simp add: push_region_eq [OF assms(1)])
    next
      case False
      obtain st1 where st1: "exec sz ev st = Inr st1" using exec_total by blast
      from False notpop have same: "profile_stack st1 = profile_stack st"
        using exec_stack_other [OF st1] by blast
      from False notpop have cnt: "pushes (ev # evs) = pushes evs" "pops (ev # evs) = pops evs"
        and nu: "no_underflow (length (profile_stack st)) (ev # evs) = no_underflow (length (profile_stack st)) evs"
        by (cases ev; simp)+
      from Cons.prems nu same have "no_underflow (length (profile_stack st1)) evs" by simp
      from Cons.IH [OF this] obtain st' where "run sz evs st1 = Inr st'"
        and "length (profile_stack st') + pops evs = length (profile_stack st1) + pushes evs"
        by blast
      with st1 same cnt show ?thesis by simp
    qed
  qed
qed

lemma end_for_twice:
  "\<exists>s1. kokkosp_end_parallel_for sz k s = Inr s1 \<and> kokkosp_end_parallel_for sz k s1 = Inr s1"
proof (cases "um_find (profile_map s) k")
  case None
  then show ?thesis by (simp add: end_for_absent)
next
  case (Some e)
  show ?thesis
  proof (cases "0 < sz")
    case True
    show ?thesis
      by (simp add: end_for_registered [OF True Some] end_for_absent um_find_erase_same)
  next
    case False
    then show ?thesis by (simp add: kokkosp_end_parallel_for_def)
  qed
qed

lemma create_section_fresh:
  assumes "0 < sz" and "um_find (profile_map st) (ucast (ucast (unique_id st) :: u32)) = None"
  shows "kokkosp_create_profile_section sz name secid st =
     Inr (st\<lparr>unique_id := unique_id st + 1,
            mem32 := (mem32 st)(secid := ucast (unique_id st)),
            profile_map := profile_map st @
              [(ucast (ucast (unique_id st) :: u32),
                \<lparr>key = ''kokkos/section'' @ show_ptr secid @ ''/'' @ name, store = True, calls = []\<rparr>)]\<rparr>)"
  using assms
  by (simp add: kokkosp_create_profile_section_def get_unique_id_def create_profiler_def
      um_insert_def profile_entry_def)

subsection \<open>The next handle is free until the counter wraps\<close>

lemma um_assign_keys: "map fst (um_assign k v m) = map fst m"
  by (induction m) auto

lemma um_find_None_iff: "um_find m k = None \<longleftrightarrow> k \<notin> fst ` set m"
  by (simp add: um_find_def map_of_eq_None_iff)

lemma handles_below_fresh:
  "handles_below st \<Longrightarrow> um_find (profile_map st) (unique_id st) = None"
  by (auto simp: handles_below_def um_find_None_iff list_all_iff)

lemma list_all_um_assign:
  assumes "list_all (\<lambda>kv. fst kv < c) m"
  shows "list_all (\<lambda>kv. fst kv < c) (um_assign k v m)"
proof -
  from assms have "list_all (\<lambda>k. k < c) (map fst m)" by (simp add: list_all_iff)
  then have "list_all (\<lambda>k. k < c) (map fst (um_assign k v m))" by (simp add: um_assign_keys)
  then show ?thesis by (simp add: list_all_iff)
qed

lemma list_all_um_erase:
  "list_all (\<lambda>kv. fst kv < c) m \<Longrightarrow> list_all (\<lambda>kv. fst kv < c) (um_erase k m)"
  by (simp add: um_erase_def list_all_iff)

lemma word_less_succ:
  fixes c :: u64
  assumes "c + 1 \<noteq> 0"
  shows "c < c + 1"
proof -
  from assms have "1 + c \<noteq> 0" by (simp add: add.commute)
  then have "unat (1 + c) = Suc (unat c)" by (rule unatSuc)
  then show ?thesis by (simp add: word_less_nat_alt add.commute)
qed

lemma section_key_le:
  fixes c :: u64
  shows "(ucast (ucast c :: u32) :: u64) \<le> c"
  by (simp add: word_le_nat_alt unsigned_ucast_eq unsigned_take_bit_eq)

lemma list_all_less_succ:
  fixes c :: u64
  assumes "c + 1 \<noteq> 0" and "list_all (\<lambda>kv. fst kv < c) m"
  shows "list_all (\<lambda>kv. fst kv < c + 1) m"
  using assms(2) word_less_succ [OF assms(1)] by (auto simp: list_all_iff)

lemma succ_nonzero:
  fixes c :: u64
  assumes "unat c + 1 < 2 ^ 64"
  shows "c + 1 \<noteq> 0"
proof
  assume "c + 1 = 0"
  then have "c = - 1" by (simp add: eq_neg_iff_add_eq_0)
  then have "unat c = 2 ^ 64 - 1" by (simp add: unsigned_minus_1_eq_mask mask_eq_exp_minus_1)
  with assms show False by simp
qed

lemma push_region_frame:
  assumes "kokkosp_push_profile_region sz name st = Inr st'"
  shows "profile_map st' = profile_map st \<and> unique_id st' = unique_id st"
proof (cases "0 < sz")
  case True
  with assms show ?thesis by (auto simp: push_region_eq)
next
  case False
  with assms show ?thesis by (simp add: kokkosp_push_profile_region_def)
qed

lemma pop_region_frame:
  assumes "kokkosp_pop_profile_region sz st = Inr st'"
  shows "profile_map st' = profile_map st \<and> unique_id st' = unique_id st"
proof (cases "0 < sz")
  case True
  show ?thesis
  proof (cases "profile_stack st" rule: rev_cases)
    case Nil
    with assms show ?thesis by (simp add: pop_region_empty)
  next
    case (snoc xs e)
    with assms True show ?thesis by (auto simp: pop_region_top)
  qed
next
  case False
  with assms show ?thesis by (simp add: kokkosp_pop_profile_region_def)
qed

lemma handles_below_exec:
  assumes "handles_below st" and "unique_id st + 1 \<noteq> 0" and "exec sz ev st = Inr st'"
  shows "handles_below st' \<and> (unique_id st' = unique_id st \<or> unique_id st' = unique_id st + 1)"
proof -
  note step = word_less_succ [OF assms(2)]
  have key: "(ucast (ucast (unique_id st) :: u32) :: u64) < unique_id st + 1"
    using section_key_le [of "unique_id st"] step by simp
  have up: "list_all (\<lambda>kv. fst kv < unique_id st + 1) (profile_map st)"
    using assms(1) list_all_less_succ [OF assms(2)] by (simp add: handles_below_def)
  have same: "list_all (\<lambda>kv. fst kv < unique_id st) (profile_map st)"
    using assms(1) by (simp add: handles_below_def)
  show ?thesis
  proof (cases "(\<exists>name. ev = Push_Region name) \<or> ev = Pop_Region")
    case True
    with assms(3) have "profile_map st' = profile_map st \<and> unique_id st' = unique_id st"
      using push_region_frame pop_region_frame by auto
    with same show ?thesis by (simp add: handles_below_def)
  next
    case False
    with assms(3) up same step key show ?thesis
      by (cases ev)
        (auto simp: callback_defs start_profiler_eq stop_profiler_eq create_profiler_def
          destroy_profiler_def get_unique_id_def Let_def handles_below_def um_insert_def
          list_all_um_assign list_all_um_erase
          split: option.splits if_splits)
  qed
qed

lemma handles_below_run:
  assumes "handles_below st" and "unat (unique_id st) + length evs < 2 ^ 64"
    and "run sz evs st = Inr st'"
  shows "handles_below st' \<and> unat (unique_id st') \<le> unat (unique_id st) + length evs"
  using assms
proof (induction evs arbitrary: st)
  case Nil
  then show ?case by simp
next
  case (Cons ev evs)
  obtain st1 where st1: "exec sz ev st = Inr st1" using exec_total by blast
  from Cons.prems(2) have "unat (unique_id st) + 1 < 2 ^ 64" by simp
  then have nz: "unique_id st + 1 \<noteq> 0" by (rule succ_nonzero)
  from handles_below_exec [OF Cons.prems(1) nz st1]
  have b1: "handles_below st1"
    and c1: "unique_id st1 = unique_id st \<or> unique_id st1 = unique_id st + 1" by simp_all
  have u: "unat (unique_id st + 1) = Suc (unat (unique_id st))"
    using nz unatSuc [of "unique_id st"] by (simp add: add.commute)
  from c1 u have le: "unat (unique_id st1) \<le> Suc (unat (unique_id st))" by auto
  with Cons.prems(2) have "unat (unique_id st1) + length evs < 2 ^ 64" by simp
  moreover from Cons.prems(3) st1 have "run sz evs st1 = Inr st'" by simp
  ultimately have "handles_below st' \<and> unat (unique_id st') \<le> unat (unique_id st1) + length evs"
    using Cons.IH [OF b1] by blast
  with le show ?case by simp
qed

lemma handles_below_init: "handles_below init_state"
  by (simp add: handles_below_def init_state_def)

lemma fresh_handle_reachable:
  assumes "run sz evs init_state = Inr st" and "length evs < 2 ^ 64"
  shows "um_find (profile_map st) (unique_id st) = None"
proof -
  have "unat (unique_id init_state) + length evs < 2 ^ 64"
    using assms(2) by (simp add: init_state_def)
  from handles_below_run [OF handles_below_init this assms(1)]
  show ?thesis by (simp add: handles_below_fresh)
qed

subsection \<open>The map never holds a key twice\<close>

lemma distinct_um_erase: "distinct (map fst m) \<Longrightarrow> distinct (map fst (um_erase k m))"
  by (simp add: um_erase_def distinct_map_filter)

lemma distinct_um_insert: "distinct (map fst m) \<Longrightarrow> distinct (map fst (um_insert k v m))"
  by (auto simp: um_insert_def um_find_None_iff)

lemma exec_distinct_keys:
  assumes "distinct (map fst (profile_map st))" and "exec sz ev st = Inr st'"
  shows "distinct (map fst (profile_map st'))"
proof (cases "(\<exists>name. ev = Push_Region name) \<or> ev = Pop_Region")
  case True
  with assms(2) have "profile_map st' = profile_map st"
    using push_region_frame pop_region_frame by auto
  with assms(1) show ?thesis by simp
next
  case False
  with assms show ?thesis
    by (cases ev)
      (auto simp: callback_defs start_profiler_eq stop_profiler_eq create_profiler_def
        destroy_profiler_def get_unique_id_def Let_def um_assign_keys distinct_um_erase
        distinct_um_insert
        split: option.splits if_splits)
qed

subsection \<open>Sequences without a pop on the empty stack\<close>

lemma all_le_Suc_shift: "(\<forall>k\<le>Suc n. P k) \<longleftrightarrow> P 0 \<and> (\<forall>j\<le>n. P (Suc j))"
proof
  assume a: "\<forall>k\<le>Suc n. P k"
  then show "P 0 \<and> (\<forall>j\<le>n. P (Suc j))" by auto
next
  assume b: "P 0 \<and> (\<forall>j\<le>n. P (Suc j))"
  show "\<forall>k\<le>Suc n. P k"
  proof (intro allI impI)
    fix k assume "k \<le> Suc n"
    with b show "P k" by (cases k) auto
  qed
qed

lemma no_underflow_prefixes:
  "no_underflow d evs \<longleftrightarrow> (\<forall>k\<le>length evs. pops (take k evs) \<le> d + pushes (take k evs))"
proof (induction d evs rule: no_underflow.induct)
  case (1 d)
  show ?case by simp
next
  case (2 d name evs)
  then show ?case by (simp add: all_le_Suc_shift)
next
  case (3 d evs)
  show ?case
  proof (cases d)
    case 0
    have "\<not> (\<forall>k\<le>length (Pop_Region # evs). pops (take k (Pop_Region # evs)) \<le> 0 + pushes (take k (Pop_Region # evs)))"
      by (auto intro!: exI [of _ "Suc 0"])
    with 0 show ?thesis by simp
  next
    case (Suc d')
    with 3 show ?thesis by (simp add: all_le_Suc_shift)
  qed
qed (simp_all add: all_le_Suc_shift)

subsection \<open>The decimal rendering reads back\<close>

lemma digit_value_digit_char: "n < 10 \<Longrightarrow> digit_value (digit_char n) = n"
proof -
  assume "n < 10"
  then have "n \<in> {0, 1, 2, 3, 4, 5, 6, 7, 8, 9}" by auto
  then show ?thesis
    by (auto simp: digit_value_def digit_char_def)
qed

lemma dec_value_show_dec: "dec_value (show_dec n) = n"
proof (induction n rule: show_dec.induct)
  case (1 n)
  show ?case
  proof (cases "n < 10")
    case True
    then show ?thesis
      by (simp add: show_dec.simps [of n] dec_value_def digit_value_digit_char)
  next
    case False
    with 1 have "dec_value (show_dec (n div 10)) = n div 10" by simp
    with False show ?thesis
      by (simp add: show_dec.simps [of n] dec_value_def digit_value_digit_char)
  qed
qed

section \<open>The claims\<close>

text \<open>
  Claim C1. The claim: stopping a section calls \<open>stop\<close> on the bundle registered under
  the section id, and never \<open>start\<close>. The code: on a fresh thread a section is created
  (it gets the id 0) and then stopped; the bundle under the key 0 has received one call,
  and the call is \<open>Start\<close>.
\<close>

theorem C1_stop_section_calls_start:
  "run 1 [Create_Section ''phase1'' 4096, Stop_Section 0] init_state =
     Inr \<lparr>unique_id = 1,
          profile_map = [(0, \<lparr>key = ''kokkos/section0x1000/phase1'', store = True, calls = [Start]\<rparr>)],
          section_map = [], profile_stack = [], destroyed = [],
          mem64 = (\<lambda>_. 0), mem32 = (\<lambda>_. 0)(4096 := 0)\<rparr>"
  by (simp add: kokkosp_create_profile_section_def kokkosp_stop_profile_section_def
      get_unique_id_def create_profiler_def start_profiler_def um_find_def um_insert_def um_at_def
      init_state_def show_ptr_def show_hex.simps digit_char_def profile_entry_def start_def)

text \<open>
  Claim C2. The claim: the section created with the name phase1 is registered as
  kokkos/section, then the decimal id, then /phase1. The code: on a fresh thread, with the
  out-parameter at the address 0x7ffc1000, the id written is 0 and the registered name is
  kokkos/section0x7ffc1000/phase1, which is not kokkos/section0/phase1. A second section
  created through the same out-parameter gets the id 1 and the same name as the first.
\<close>

theorem C2_section_name_holds_the_pointer:
  "run 1 [Create_Section ''phase1'' 0x7ffc1000] init_state =
     Inr \<lparr>unique_id = 1,
          profile_map = [(0, \<lparr>key = ''kokkos/section0x7ffc1000/phase1'', store = True, calls = []\<rparr>)],
          section_map = [], profile_stack = [], destroyed = [],
          mem64 = (\<lambda>_. 0), mem32 = (\<lambda>_. 0)(0x7ffc1000 := 0)\<rparr>
   \<and> ''kokkos/section0x7ffc1000/phase1'' \<noteq> ''kokkos/section'' @ show_u32 0 @ ''/'' @ ''phase1''
   \<and> run 1 [Create_Section ''phase1'' 0x7ffc1000, Create_Section ''phase1'' 0x7ffc1000] init_state =
     Inr \<lparr>unique_id = 2,
          profile_map = [(0, \<lparr>key = ''kokkos/section0x7ffc1000/phase1'', store = True, calls = []\<rparr>),
                         (1, \<lparr>key = ''kokkos/section0x7ffc1000/phase1'', store = True, calls = []\<rparr>)],
          section_map = [], profile_stack = [], destroyed = [],
          mem64 = (\<lambda>_. 0), mem32 = (\<lambda>_. 0)(0x7ffc1000 := 1)\<rparr>"
  by (simp add: kokkosp_create_profile_section_def
      get_unique_id_def create_profiler_def um_find_def um_insert_def
      init_state_def show_ptr_def show_hex.simps show_dec.simps show_u32_def digit_char_def profile_entry_def)

text \<open>
  Claim C3. As stated the claim fails: on a fresh thread, after one section has been created,
  the section map is empty and the session is in the profile map, the map of the kernels,
  under the key 0.
\<close>

theorem C3_counterexample:
  "run 1 [Create_Section ''phase1'' 4096] init_state =
     Inr \<lparr>unique_id = 1,
          profile_map = [(0, \<lparr>key = ''kokkos/section0x1000/phase1'', store = True, calls = []\<rparr>)],
          section_map = [], profile_stack = [], destroyed = [],
          mem64 = (\<lambda>_. 0), mem32 = (\<lambda>_. 0)(4096 := 0)\<rparr>"
  by (simp add: kokkosp_create_profile_section_def
      get_unique_id_def create_profiler_def um_find_def um_insert_def
      init_state_def show_ptr_def show_hex.simps digit_char_def profile_entry_def)

text \<open>
  Claim C3, amended. Sections share the map of the kernels. With a metric set that is not
  empty and the key free, \<open>create_section\<close> puts its session into the profile map under
  the 32-bit id it wrote, widened to 64 bits, and leaves the section map as it was;
  \<open>start_section\<close> and \<open>destroy_section\<close> find the session there. No sequence of
  callbacks from any state changes the section map.
\<close>

theorem C3_sections_live_in_the_profile_map:
  assumes "0 < sz" and "um_find (profile_map st) (ucast (ucast (unique_id st) :: u32)) = None"
  shows "\<exists>st1. kokkosp_create_profile_section sz name secid st = Inr st1
      \<and> um_find (profile_map st1) (ucast (mem32 st1 secid)) =
          Some \<lparr>key = ''kokkos/section'' @ show_ptr secid @ ''/'' @ name, store = True, calls = []\<rparr>
      \<and> section_map st1 = section_map st
      \<and> (\<exists>st2. kokkosp_start_profile_section sz (mem32 st1 secid) st1 = Inr st2
            \<and> um_find (profile_map st2) (ucast (mem32 st1 secid)) =
                Some \<lparr>key = ''kokkos/section'' @ show_ptr secid @ ''/'' @ name, store = True,
                      calls = [Start]\<rparr>)
      \<and> (\<exists>st3. kokkosp_destroy_profile_section sz (mem32 st1 secid) st1 = Inr st3
            \<and> um_find (profile_map st3) (ucast (mem32 st1 secid)) = None
            \<and> destroyed st3 = destroyed st1 @
                [\<lparr>key = ''kokkos/section'' @ show_ptr secid @ ''/'' @ name, store = True, calls = []\<rparr>])
      \<and> (\<forall>evs s. \<exists>s'. run sz evs s = Inr s' \<and> section_map s' = section_map s)"
proof -
  let ?sid = "ucast (unique_id st) :: u32"
  let ?e = "\<lparr>key = ''kokkos/section'' @ show_ptr secid @ ''/'' @ name, store = True, calls = []\<rparr>"
  let ?st1 = "st\<lparr>unique_id := unique_id st + 1,
            mem32 := (mem32 st)(secid := ?sid),
            profile_map := profile_map st @ [(ucast ?sid, ?e)]\<rparr>"
  have c: "kokkosp_create_profile_section sz name secid st = Inr ?st1"
    by (rule create_section_fresh [OF assms])
  have f: "um_find (profile_map ?st1) (ucast ?sid) = Some ?e"
    by (simp add: um_find_appended [OF assms(2)])
  have s: "\<exists>st2. kokkosp_start_profile_section sz ?sid ?st1 = Inr st2
      \<and> um_find (profile_map st2) (ucast ?sid) = Some (start ?e)"
    using assms(1) f um_find_assign_same [OF f, of "start ?e"]
    by (simp add: kokkosp_start_profile_section_def start_profiler_eq)
  have d: "\<exists>st3. kokkosp_destroy_profile_section sz ?sid ?st1 = Inr st3
      \<and> um_find (profile_map st3) (ucast ?sid) = None
      \<and> destroyed st3 = destroyed ?st1 @ [?e]"
    using assms(1) f
    by (simp add: kokkosp_destroy_profile_section_def destroy_profiler_def um_find_erase_same)
  have never: "\<exists>s'. run sz evs s = Inr s' \<and> section_map s' = section_map s" for evs s
  proof -
    obtain s' where r: "run sz evs s = Inr s'" using run_total by blast
    with run_section_map [OF r] show ?thesis by simp
  qed
  have m: "mem32 ?st1 secid = ?sid" by simp
  have e: "start ?e = \<lparr>key = ''kokkos/section'' @ show_ptr secid @ ''/'' @ name, store = True,
                      calls = [Start]\<rparr>"
    by (simp add: start_def)
  have sm: "section_map ?st1 = section_map st" by simp
  show ?thesis
    apply (rule exI [of _ ?st1])
    apply (simp only: m)
    using c f s d never sm unfolding e by blast
qed

theorem C3_sections_live_in_the_profile_map_witness:
  "0 < (1::nat)
   \<and> um_find (profile_map init_state) (ucast (ucast (unique_id init_state) :: u32)) = None
   \<and> (\<exists>st1. kokkosp_create_profile_section 1 ''phase1'' 4096 init_state = Inr st1
         \<and> um_find (profile_map st1) (ucast (mem32 st1 4096)) =
             Some \<lparr>key = ''kokkos/section0x1000/phase1'', store = True, calls = []\<rparr>
         \<and> section_map st1 = [])"
proof -
  have h1: "0 < (1::nat)" by simp
  have h2: "um_find (profile_map init_state) (ucast (ucast (unique_id init_state) :: u32)) = None"
    by (simp add: init_state_def um_find_def)
  have p: "show_ptr 4096 = ''0x1000''"
    by (simp add: show_ptr_def show_hex.simps digit_char_def)
  have sm: "section_map init_state = []" by (simp add: init_state_def)
  show ?thesis
    using C3_sections_live_in_the_profile_map [OF h1 h2, of "''phase1''" 4096] h2
    by (auto simp: p sm)
qed

text \<open>
  Claim C4. With an empty metric set (\<open>sz = 0\<close>) any sequence of the twelve gated
  callbacks returns the state it started from, whatever that state is: no map, stack,
  counter or memory cell changes and no bundle is constructed or destroyed. From a fresh
  thread the two maps and the stack are therefore empty afterwards.
\<close>

theorem C4_empty_metric_set_changes_nothing:
  "run 0 evs st = Inr st
   \<and> (\<exists>st'. run 0 evs init_state = Inr st'
          \<and> profile_map st' = [] \<and> section_map st' = [] \<and> profile_stack st' = []
          \<and> destroyed st' = [] \<and> unique_id st' = 0)"
  by (simp add: run_zero) (simp add: init_state_def)

text \<open>
  Claim C5. For a handle that is not in the map of the thread, \<open>start_profiler\<close>,
  \<open>stop_profiler\<close> and \<open>destroy_profiler\<close> return the state unchanged and without an
  error, and so do the callbacks built on them: the three end-region callbacks and, for a
  section id that is not in the map, start, stop and destroy of a section. A second end
  on the same handle changes nothing, and no sequence of callbacks from any state ends in
  an error.
\<close>

theorem C5_absent_handle_is_a_no_op:
  assumes "um_find (profile_map st) h = None" and "um_find (profile_map st) (ucast secid) = None"
  shows "start_profiler h st = Inr st \<and> stop_profiler h st = Inr st \<and> destroy_profiler h st = st
       \<and> kokkosp_end_parallel_for sz h st = Inr st
       \<and> kokkosp_end_parallel_reduce sz h st = Inr st
       \<and> kokkosp_end_parallel_scan sz h st = Inr st
       \<and> kokkosp_start_profile_section sz secid st = Inr st
       \<and> kokkosp_stop_profile_section sz secid st = Inr st
       \<and> kokkosp_destroy_profile_section sz secid st = Inr st
       \<and> (\<forall>k s. \<exists>s1. kokkosp_end_parallel_for sz k s = Inr s1
                      \<and> kokkosp_end_parallel_for sz k s1 = Inr s1)
       \<and> (\<forall>evs s. \<exists>s'. run sz evs s = Inr s')"
proof -
  have registry: "start_profiler h st = Inr st" "stop_profiler h st = Inr st"
      "destroy_profiler h st = st"
    using assms(1) by (simp_all add: start_profiler_eq stop_profiler_eq destroy_profiler_def)
  have ends: "kokkosp_end_parallel_for sz h st = Inr st"
      "kokkosp_end_parallel_reduce sz h st = Inr st"
      "kokkosp_end_parallel_scan sz h st = Inr st"
    using end_for_absent [OF assms(1)] by (simp_all add: end_reduce_is_for end_scan_is_for)
  have sections: "kokkosp_start_profile_section sz secid st = Inr st"
      "kokkosp_stop_profile_section sz secid st = Inr st"
      "kokkosp_destroy_profile_section sz secid st = Inr st"
    using assms(2)
    by (simp_all add: kokkosp_start_profile_section_def kokkosp_stop_profile_section_def
        kokkosp_destroy_profile_section_def start_profiler_eq destroy_profiler_def)
  from registry ends sections end_for_twice run_total show ?thesis by blast
qed

theorem C5_absent_handle_is_a_no_op_witness:
  "um_find (profile_map init_state) 7 = None
   \<and> um_find (profile_map init_state) (ucast (7 :: u32)) = None
   \<and> kokkosp_end_parallel_for 1 7 init_state = Inr init_state
   \<and> kokkosp_start_profile_section 1 7 init_state = Inr init_state
   \<and> kokkosp_stop_profile_section 1 7 init_state = Inr init_state
   \<and> kokkosp_destroy_profile_section 1 7 init_state = Inr init_state"
proof -
  have h1: "um_find (profile_map init_state) 7 = None"
    by (simp add: init_state_def um_find_def)
  have h2: "um_find (profile_map init_state) (ucast (7 :: u32)) = None"
    by (simp add: init_state_def um_find_def)
  show ?thesis
    using C5_absent_handle_is_a_no_op [OF h1 h2, of 1] h1 h2 by blast
qed

text \<open>
  Claim C6. With a metric set that is not empty, an end-region callback (for, reduce or
  scan) on a handle \<open>h\<close> that is registered with the bundle \<open>e\<close> returns the state
  in which \<open>h\<close> is erased from the map and \<open>e\<close> has been destroyed after one more call,
  \<open>Stop\<close>: the stop comes first, then the removal. No call of start or stop by the
  caller is needed. Every begin-region callback returns with the handle it wrote through
  its out-parameter registered, so the handles it gives out are such handles.
\<close>

theorem C6_end_region_stops_then_destroys:
  assumes "0 < sz" and "um_find (profile_map st) h = Some e"
  shows "kokkosp_end_parallel_for sz h st =
           Inr (st\<lparr>profile_map := um_erase h (profile_map st), destroyed := destroyed st @ [stop e]\<rparr>)
       \<and> kokkosp_end_parallel_reduce sz h st =
           Inr (st\<lparr>profile_map := um_erase h (profile_map st), destroyed := destroyed st @ [stop e]\<rparr>)
       \<and> kokkosp_end_parallel_scan sz h st =
           Inr (st\<lparr>profile_map := um_erase h (profile_map st), destroyed := destroyed st @ [stop e]\<rparr>)
       \<and> um_find (um_erase h (profile_map st)) h = None
       \<and> calls (stop e) = calls e @ [Stop]
       \<and> (\<forall>name devid kernid s. \<exists>s1 e1.
             kokkosp_begin_parallel_for sz name devid kernid s = Inr s1
           \<and> um_find (profile_map s1) (mem64 s1 kernid) = Some e1)
       \<and> (\<forall>name devid kernid s. \<exists>s1 e1.
             kokkosp_begin_parallel_reduce sz name devid kernid s = Inr s1
           \<and> um_find (profile_map s1) (mem64 s1 kernid) = Some e1)
       \<and> (\<forall>name devid kernid s. \<exists>s1 e1.
             kokkosp_begin_parallel_scan sz name devid kernid s = Inr s1
           \<and> um_find (profile_map s1) (mem64 s1 kernid) = Some e1)"
proof -
  have ends: "kokkosp_end_parallel_for sz h st =
           Inr (st\<lparr>profile_map := um_erase h (profile_map st), destroyed := destroyed st @ [stop e]\<rparr>)"
    by (rule end_for_registered [OF assms])
  have gone: "um_find (um_erase h (profile_map st)) h = None"
    by (rule um_find_erase_same)
  have stopped: "calls (stop e) = calls e @ [Stop]"
    by (simp add: stop_def)
  have begins: "\<exists>s1 e1. kokkosp_begin_parallel_for sz name devid kernid s = Inr s1
           \<and> um_find (profile_map s1) (mem64 s1 kernid) = Some e1"
    for name devid kernid s
    using begin_for_registers [OF assms(1), of name devid kernid s] by blast
  from ends gone stopped begins show ?thesis
    unfolding end_reduce_is_for end_scan_is_for begin_reduce_is_for begin_scan_is_for
    by blast
qed

theorem C6_end_region_stops_then_destroys_witness:
  "0 < (1::nat)
   \<and> kokkosp_begin_parallel_for 1 ''init_kernel'' 0 4096 init_state =
       Inr (init_state\<lparr>unique_id := 1, mem64 := (mem64 init_state)(4096 := 0),
              profile_map := [(0, \<lparr>key = ''kokkos/dev0/init_kernel'', store = True, calls = [Start]\<rparr>)]\<rparr>)
   \<and> kokkosp_end_parallel_for 1 0
        (init_state\<lparr>unique_id := 1, mem64 := (mem64 init_state)(4096 := 0),
              profile_map := [(0, \<lparr>key = ''kokkos/dev0/init_kernel'', store = True, calls = [Start]\<rparr>)]\<rparr>) =
       Inr (init_state\<lparr>unique_id := 1, mem64 := (mem64 init_state)(4096 := 0), profile_map := [],
              destroyed := [\<lparr>key = ''kokkos/dev0/init_kernel'', store = True, calls = [Start, Stop]\<rparr>]\<rparr>)"
proof -
  let ?e = "\<lparr>key = ''kokkos/dev0/init_kernel'', store = True, calls = [Start]\<rparr>"
  let ?st = "init_state\<lparr>unique_id := 1, mem64 := (mem64 init_state)(4096 := 0), profile_map := [(0, ?e)]\<rparr>"
  have h1: "0 < (1::nat)" by simp
  have h2: "um_find (profile_map ?st) 0 = Some ?e" by (simp add: um_find_def)
  have b: "kokkosp_begin_parallel_for 1 ''init_kernel'' 0 4096 init_state = Inr ?st"
    using begin_for_fresh [of 1 init_state "''init_kernel''" 0 4096]
    by (simp add: init_state_def um_find_def show_dec.simps digit_char_def)
  show ?thesis
    using C6_end_region_stops_then_destroys [OF h1 h2] b
    by (simp add: um_erase_def stop_def init_state_def)
qed

text \<open>
  Claim C7. As stated the claim fails: a pop that meets the empty stack is a no-op, so the
  sequence pop, push has one push and one pop and leaves the stack at depth 1, not 0.
\<close>

theorem C7_counterexample:
  "pops [Pop_Region, Push_Region ''a''] \<le> pushes [Pop_Region, Push_Region ''a'']
   \<and> run 1 [Pop_Region, Push_Region ''a''] init_state =
       Inr (init_state\<lparr>profile_stack := [\<lparr>key = ''a'', store = True, calls = [Start]\<rparr>]\<rparr>)
   \<and> length (profile_stack (init_state\<lparr>profile_stack := [\<lparr>key = ''a'', store = True, calls = [Start]\<rparr>]\<rparr>))
       \<noteq> pushes [Pop_Region, Push_Region ''a''] - pops [Pop_Region, Push_Region ''a'']"
  by (simp add: pop_region_empty push_region_eq init_state_def)

text \<open>
  Claim C7, amended. With a metric set that is not empty, a sequence of callbacks in which
  no pop meets an empty stack, with N pushes and M pops, leaves the stack at its depth
  before the sequence plus N minus M (M is at most that depth plus N). A push appends a
  started bundle of the given name; a pop on a stack that is not empty stops the last
  bundle and removes exactly that one; a pop on the empty stack changes nothing.
  By \<open>no_underflow_prefixes\<close> the condition on the sequence says that every prefix has
  at most as many pops as the depth at the start plus its pushes.
\<close>

theorem C7_stack_depth_without_underflow:
  assumes "0 < sz" and "no_underflow (length (profile_stack st)) evs"
  shows "(\<exists>st'. run sz evs st = Inr st'
            \<and> length (profile_stack st') = length (profile_stack st) + pushes evs - pops evs
            \<and> pops evs \<le> length (profile_stack st) + pushes evs)
       \<and> (\<forall>name s. kokkosp_push_profile_region sz name s =
            Inr (s\<lparr>profile_stack := profile_stack s @ [\<lparr>key = name, store = True, calls = [Start]\<rparr>]\<rparr>))
       \<and> (\<forall>s xs e. profile_stack s = xs @ [e] \<longrightarrow>
            kokkosp_pop_profile_region sz s =
              Inr (s\<lparr>profile_stack := xs, destroyed := destroyed s @ [stop e]\<rparr>))
       \<and> (\<forall>s. profile_stack s = [] \<longrightarrow> kokkosp_pop_profile_region sz s = Inr s)"
proof -
  from run_stack_depth [OF assms] obtain st' where r: "run sz evs st = Inr st'"
    and d: "length (profile_stack st') + pops evs = length (profile_stack st) + pushes evs"
    by blast
  from d have "length (profile_stack st') = length (profile_stack st) + pushes evs - pops evs"
    by arith
  with r pops_le_pushes [OF assms(2)]
  have a: "\<exists>st'. run sz evs st = Inr st'
            \<and> length (profile_stack st') = length (profile_stack st) + pushes evs - pops evs
            \<and> pops evs \<le> length (profile_stack st) + pushes evs"
    by blast
  show ?thesis
    using a push_region_eq [OF assms(1)] pop_region_top [OF assms(1)] pop_region_empty
    by blast
qed

theorem C7_stack_depth_without_underflow_witness:
  "0 < (1::nat)
   \<and> no_underflow (length (profile_stack init_state)) [Push_Region ''a'', Push_Region ''b'', Pop_Region]
   \<and> (\<exists>st'. run 1 [Push_Region ''a'', Push_Region ''b'', Pop_Region] init_state = Inr st'
         \<and> length (profile_stack st') = 1)"
proof -
  have h1: "0 < (1::nat)" by simp
  have h2: "no_underflow (length (profile_stack init_state)) [Push_Region ''a'', Push_Region ''b'', Pop_Region]"
    by (simp add: init_state_def)
  show ?thesis
    using C7_stack_depth_without_underflow [OF h1 h2] h2
    by (simp add: init_state_def)
qed

text \<open>
  Claim C8. With a metric set that is not empty and the next handle not yet in the map,
  \<open>begin_for\<close>, \<open>begin_reduce\<close> and \<open>begin_scan\<close> with the name \<open>n\<close> and the device
  id \<open>d\<close> write that handle through the out-parameter and register under it a started
  bundle whose name is kokkos/dev, the decimal \<open>d\<close>, a slash and \<open>n\<close>.
  By \<open>fresh_handle_reachable\<close> the next handle is not in the map in any state that fewer
  than \<open>2 ^ 64\<close> callbacks reach from a fresh thread, and by \<open>dec_value_show_dec\<close> the
  digits written for \<open>d\<close> read back as \<open>d\<close>.
\<close>

theorem C8_kernel_region_names:
  assumes "0 < sz" and "um_find (profile_map st) (unique_id st) = None"
  shows "\<exists>st'. kokkosp_begin_parallel_for sz name devid kernid st = Inr st'
       \<and> kokkosp_begin_parallel_reduce sz name devid kernid st = Inr st'
       \<and> kokkosp_begin_parallel_scan sz name devid kernid st = Inr st'
       \<and> mem64 st' kernid = unique_id st
       \<and> um_find (profile_map st') (mem64 st' kernid) =
           Some \<lparr>key = ''kokkos/dev'' @ show_u32 devid @ ''/'' @ name, store = True, calls = [Start]\<rparr>"
  by (simp add: begin_reduce_is_for begin_scan_is_for begin_for_fresh [OF assms]
      um_find_appended [OF assms(2)] show_u32_def)

theorem C8_kernel_region_names_witness:
  "0 < (1::nat) \<and> um_find (profile_map init_state) (unique_id init_state) = None
   \<and> (\<exists>st'. kokkosp_begin_parallel_for 1 ''saxpy'' 2 4096 init_state = Inr st'
         \<and> mem64 st' 4096 = 0
         \<and> um_find (profile_map st') 0 =
             Some \<lparr>key = ''kokkos/dev2/saxpy'', store = True, calls = [Start]\<rparr>)"
proof -
  have h1: "0 < (1::nat)" by simp
  have h2: "um_find (profile_map init_state) (unique_id init_state) = None"
    by (simp add: init_state_def um_find_def)
  have n: "show_u32 2 = ''2''"
    by (simp add: show_u32_def show_dec.simps digit_char_def)
  have u: "unique_id init_state = 0" by (simp add: init_state_def)
  show ?thesis
    using C8_kernel_region_names [OF h1 h2, of "''saxpy''" 2 4096] h2
    by (auto simp: n u)
qed

text \<open>
  Claim C9. With an empty metric set the three begin-region callbacks return without
  writing through \<open>kernid\<close>: the memory behind the out-parameters is the one before
  the call.
\<close>

theorem C9_empty_metric_set_leaves_the_out_handle:
  "(\<exists>st'. kokkosp_begin_parallel_for 0 name devid kernid st = Inr st' \<and> mem64 st' = mem64 st)
   \<and> (\<exists>st'. kokkosp_begin_parallel_reduce 0 name devid kernid st = Inr st' \<and> mem64 st' = mem64 st)
   \<and> (\<exists>st'. kokkosp_begin_parallel_scan 0 name devid kernid st = Inr st' \<and> mem64 st' = mem64 st)"
  by (simp add: kokkosp_begin_parallel_for_def kokkosp_begin_parallel_reduce_def
      kokkosp_begin_parallel_scan_def)

text \<open>
  Claim C10. \<open>kokkosp_finalize_library\<close> empties the handle-keyed map, and the bundles
  destroyed by it are the bundles of that map, each stopped first. The stack of regions is
  the same list afterwards: a bundle pushed (with a metric set of any size \<open>Suc n\<close>) and
  not popped is still on it, and the only call it has received is the \<open>Start\<close> of the
  push.
\<close>

theorem C10_finalize_leaves_the_stack:
  "(\<exists>st'. kokkosp_finalize_library st = Inr st'
        \<and> profile_stack st' = profile_stack st
        \<and> profile_map st' = []
        \<and> destroyed st' = destroyed st @ map (\<lambda>kv. stop (snd kv)) (profile_map st))
   \<and> (\<exists>st1 st2. kokkosp_push_profile_region (Suc n) name st = Inr st1
        \<and> kokkosp_finalize_library st1 = Inr st2
        \<and> profile_stack st2 = profile_stack st @ [\<lparr>key = name, store = True, calls = [Start]\<rparr>])"
  by (simp add: push_region_eq) (simp add: kokkosp_finalize_library_def comp_def)

end
